theory Spec2Isabelle
  imports Main
begin

section \<open>Python values and exceptions\<close>

text \<open>
  The exceptions that the modelled part of \<^verbatim>\<open>meshviewer.py\<close> can raise. \<open>ReadError\<close> and
  \<open>PlotError\<close> stand for whatever the mesh reader and the view raise. A function that
  may raise returns \<open>error + 'a\<close>, with \<open>Inl\<close> for the exception.
\<close>

datatype error =
    IndexError | ValueError | KeyError | RuntimeError | FileNotFoundError | PermissionError
  | ReadError | PlotError

text \<open>
  \<^verbatim>\<open>xs[i]\<close> on a Python sequence: an index below zero counts from the end, and an index
  outside \<open>-len(xs) .. len(xs) - 1\<close> raises \<^verbatim>\<open>IndexError\<close>.
\<close>

definition py_index :: "'a list \<Rightarrow> int \<Rightarrow> error + 'a" where
  "py_index xs i =
     (if 0 \<le> i \<and> i < int (length xs) then Inr (xs ! nat i)
      else if i < 0 \<and> - int (length xs) \<le> i then Inr (xs ! nat (int (length xs) + i))
      else Inl IndexError)"

text \<open>
  A list comprehension or an appending loop whose body may raise: the elements are
  evaluated from left to right and the first exception ends the evaluation.
\<close>

fun collect :: "('a \<Rightarrow> error + 'b) \<Rightarrow> 'a list \<Rightarrow> error + 'b list" where
  "collect f [] = Inr []"
| "collect f (x # xs) =
     (case f x of
        Inl e \<Rightarrow> Inl e
      | Inr y \<Rightarrow> (case collect f xs of Inl e \<Rightarrow> Inl e | Inr ys \<Rightarrow> Inr (y # ys)))"

text \<open>The builtins \<^verbatim>\<open>min\<close> and \<^verbatim>\<open>max\<close> on a list: \<^verbatim>\<open>ValueError\<close> on the empty list.\<close>

fun py_min :: "'a::linorder list \<Rightarrow> error + 'a" where
  "py_min [] = Inl ValueError"
| "py_min (x # xs) = Inr (fold min xs x)"

fun py_max :: "'a::linorder list \<Rightarrow> error + 'a" where
  "py_max [] = Inl ValueError"
| "py_max (x # xs) = Inr (fold max xs x)"

section \<open>Mesh\<close>

text \<open>
  \<^verbatim>\<open>class Mesh\<close>: \<open>vertices\<close> is the sequence of vertex positions (each a sequence of
  coordinates), \<open>faces\<close> the sequence of faces (each a sequence of vertex indices; the
  program stores them as unsigned 32-bit values, so they are never negative), and
  \<open>bounding_box\<close> the list of \<open>[min, max]\<close> pairs stored by the constructor.
  Coordinates are taken from any linear order (the floats of the program without NaN).
\<close>

record 'a mesh =
  vertices :: "'a list list"
  faces :: "nat list list"
  bounding_box :: "'a list list"

text \<open>\<^verbatim>\<open>Mesh.get_vertices\<close>: for every face, the positions of its vertices.\<close>

definition get_vertices :: "'a list list \<Rightarrow> nat list list \<Rightarrow> error + 'a list list list" where
  "get_vertices vs fs = collect (\<lambda>face. collect (\<lambda>ivt. py_index vs (int ivt)) face) fs"

text \<open>
  One iteration of the loop over the axes in \<^verbatim>\<open>Mesh.get_bounding_box\<close>:
  \<^verbatim>\<open>x_i = [p[i] for p in v]; bbox.append([min(x_i), max(x_i)])\<close>.
\<close>

definition axis_bounds :: "'a::linorder list list \<Rightarrow> nat \<Rightarrow> error + 'a list" where
  "axis_bounds v i =
     (case collect (\<lambda>p. py_index p (int i)) v of
        Inl e \<Rightarrow> Inl e
      | Inr x_i \<Rightarrow>
          (case py_min x_i of
             Inl e \<Rightarrow> Inl e
           | Inr lo \<Rightarrow> (case py_max x_i of Inl e \<Rightarrow> Inl e | Inr hi \<Rightarrow> Inr [lo, hi])))"

text \<open>
  \<^verbatim>\<open>Mesh.get_bounding_box\<close>: \<open>v\<close> is the flattened list of the positions that the faces
  reference, and the number of axes is the length of the first stored vertex.
\<close>

definition get_bounding_box :: "'a::linorder list list \<Rightarrow> nat list list \<Rightarrow> error + 'a list list" where
  "get_bounding_box vs fs =
     (case get_vertices vs fs of
        Inl e \<Rightarrow> Inl e
      | Inr fv \<Rightarrow>
          (case py_index vs 0 of
             Inl e \<Rightarrow> Inl e
           | Inr v0 \<Rightarrow> collect (axis_bounds (concat fv)) [0..<length v0]))"

text \<open>\<^verbatim>\<open>Mesh.__init__\<close>: stores both arguments and the bounding box computed from them.\<close>

definition Mesh :: "'a::linorder list list \<Rightarrow> nat list list \<Rightarrow> error + 'a mesh" where
  "Mesh vs fs =
     (case get_bounding_box vs fs of
        Inl e \<Rightarrow> Inl e
      | Inr bbox \<Rightarrow> Inr \<lparr>vertices = vs, faces = fs, bounding_box = bbox\<rparr>)"

text \<open>
  The loop of \<^verbatim>\<open>Mesh.get_line_segments\<close> that fills the set \<^verbatim>\<open>line_segments\<close>.
  \<open>edge_at face i\<close> is the pair built in iteration \<open>i\<close> of the inner loop. A Python set
  is modelled as the list of its elements in the order of their first insertion,
  \<open>set_add\<close> being \<^verbatim>\<open>set.add\<close>. That list stands for the set only: the order in which
  Python iterates over the set is another one (see \<open>get_line_segments\<close> below).
\<close>

definition edge_at :: "nat list \<Rightarrow> nat \<Rightarrow> nat \<times> nat" where
  "edge_at face i =
     (let iv = face ! i; jv = face ! ((i + 1) mod length face)
      in if jv > iv then (iv, jv) else (jv, iv))"

definition set_add :: "'a \<Rightarrow> 'a list \<Rightarrow> 'a list" where
  "set_add x xs = (if x \<in> set xs then xs else xs @ [x])"

definition face_loop :: "nat list \<Rightarrow> (nat \<times> nat) list \<Rightarrow> (nat \<times> nat) list" where
  "face_loop face line_segments =
     fold (\<lambda>i acc. set_add (edge_at face i) acc) [0..<length face] line_segments"

definition line_segments_of :: "nat list list \<Rightarrow> (nat \<times> nat) list" where
  "line_segments_of fs = fold face_loop fs []"





section \<open>File paths\<close>

text \<open>
  The program handles a file path either as a string or as a \<^verbatim>\<open>pathlib.Path\<close>. The
  operations of \<^verbatim>\<open>pathlib\<close> that it calls are written out for the POSIX flavour of
  Python 3.12 (the program needs \<^verbatim>\<open>typing.override\<close>): a path is its root
  (\<^verbatim>\<open>''\<close>, \<^verbatim>\<open>'/'\<close> or \<^verbatim>\<open>'//'\<close>) and the list of its components.
\<close>

datatype pure_path = PurePath (path_root: string) (path_tail: "string list")

datatype pypath = Str string | PathObj pure_path

text \<open>The truth value of a path in \<^verbatim>\<open>if self.reload_file:\<close>.\<close>

fun truthy :: "pypath \<Rightarrow> bool" where
  "truthy (Str s) = (s \<noteq> [])"
| "truthy (PathObj p) = True"

text \<open>\<^verbatim>\<open>posixpath.splitroot\<close>, without the drive, which is always empty.\<close>

definition splitroot :: "string \<Rightarrow> string \<times> string" where
  "splitroot p =
     (if take 1 p \<noteq> ''/'' then ([], p)
      else if take 1 (drop 1 p) \<noteq> ''/'' \<or> take 1 (drop 2 p) = ''/'' then (''/'', drop 1 p)
      else (take 2 p, drop 2 p))"

text \<open>\<^verbatim>\<open>rel.split('/')\<close>.\<close>

fun split_sep :: "string \<Rightarrow> string list" where
  "split_sep [] = [[]]"
| "split_sep (c # cs) =
     (if c = CHR ''/'' then [] # split_sep cs
      else (case split_sep cs of [] \<Rightarrow> [[c]] | x # xs \<Rightarrow> (c # x) # xs))"

text \<open>\<^verbatim>\<open>pathlib.Path(s)\<close>: empty components and \<^verbatim>\<open>'.'\<close> components are dropped.\<close>

definition parse_path :: "string \<Rightarrow> pure_path" where
  "parse_path s =
     (if s = [] then PurePath [] []
      else (case splitroot s of
              (r, rel) \<Rightarrow> PurePath r (filter (\<lambda>x. x \<noteq> [] \<and> x \<noteq> ''.'') (split_sep rel))))"

fun to_path :: "pypath \<Rightarrow> pure_path" where
  "to_path (Str s) = parse_path s"
| "to_path (PathObj p) = p"

text \<open>\<^verbatim>\<open>Path.name\<close>: the last component, or the empty string.\<close>

definition path_name :: "pure_path \<Rightarrow> string" where
  "path_name p = (if path_tail p = [] then [] else last (path_tail p))"

text \<open>
  \<^verbatim>\<open>str.rfind\<close> of one character: the highest index where it occurs; \<open>None\<close> stands for
  the result \<open>-1\<close> of Python, when it does not occur.
\<close>

fun rfind :: "char \<Rightarrow> string \<Rightarrow> nat option" where
  "rfind c [] = None"
| "rfind c (x # xs) =
     (case rfind c xs of
        Some i \<Rightarrow> Some (Suc i)
      | None \<Rightarrow> if x = c then Some 0 else None)"

text \<open>
  \<^verbatim>\<open>Path.suffix\<close>: the name from its last dot on, when that dot is neither the first nor
  the last character of the name (\<^verbatim>\<open>0 < i < len(name) - 1\<close>). No letter is changed.
\<close>

definition path_suffix :: "pure_path \<Rightarrow> string" where
  "path_suffix p =
     (let name = path_name p
      in case rfind CHR ''.'' name of
           None \<Rightarrow> []
         | Some i \<Rightarrow> if 0 < i \<and> i + 1 < length name then drop i name else [])"

text \<open>\<^verbatim>\<open>Path.with_name\<close>, \<^verbatim>\<open>Path.with_stem\<close> and \<^verbatim>\<open>Path.with_suffix\<close>.\<close>

definition with_name :: "pure_path \<Rightarrow> string \<Rightarrow> error + pure_path" where
  "with_name p name =
     (if path_name p = [] then Inl ValueError
      else if name = [] \<or> CHR ''/'' \<in> set name then Inl ValueError
      else Inr (PurePath (path_root p) (butlast (path_tail p) @ [name])))"

definition with_stem :: "pure_path \<Rightarrow> string \<Rightarrow> error + pure_path" where
  "with_stem p stem = with_name p (stem @ path_suffix p)"

definition with_suffix :: "pure_path \<Rightarrow> string \<Rightarrow> error + pure_path" where
  "with_suffix p suffix =
     (if CHR ''/'' \<in> set suffix then Inl ValueError
      else if (suffix \<noteq> [] \<and> take 1 suffix \<noteq> ''.'') \<or> suffix = ''.'' then Inl ValueError
      else if path_name p = [] then Inl ValueError
      else Inr (PurePath (path_root p)
                  (butlast (path_tail p) @
                     [take (length (path_name p) - length (path_suffix p)) (path_name p) @ suffix])))"

text \<open>\<^verbatim>\<open>Path.parents[0]\<close>: \<^verbatim>\<open>IndexError\<close> for a path without components.\<close>

definition parents0 :: "pure_path \<Rightarrow> error + pure_path" where
  "parents0 p =
     (if path_tail p = [] then Inl IndexError
      else Inr (PurePath (path_root p) (butlast (path_tail p))))"

section \<open>Model\<close>

text \<open>
  \<^verbatim>\<open>class Model\<close>. Meshes are objects: \<open>objects\<close> is the store of all \<^verbatim>\<open>Mesh\<close> objects
  created so far, an address being the position in it, and \<open>data\<close> is the list
  \<^verbatim>\<open>self.data\<close> of references to them. The list stored in \<open>bounding_box\<close> and its inner
  lists \<open>[min, max]\<close> belong to one mesh object only (the constructor builds them), so a
  list is addressed through the mesh that owns it.
\<close>

type_synonym addr = nat

record 'a model =
  objects :: "'a mesh list"
  data :: "addr list"

definition Model_clear :: "'a model \<Rightarrow> 'a model" where
  "Model_clear M = M\<lparr>data := []\<rparr>"

text \<open>
  \<^verbatim>\<open>Model.load_file\<close>; the first argument is \<^verbatim>\<open>vispy.io.read_mesh\<close>, cut down to the
  vertices and the faces that it returns.
\<close>

definition Model_load_file ::
  "(pypath \<Rightarrow> error + 'a::linorder list list \<times> nat list list) \<Rightarrow> pypath \<Rightarrow> 'a model
     \<Rightarrow> error + 'a model" where
  "Model_load_file read_mesh file_name M =
     (case read_mesh file_name of
        Inl e \<Rightarrow> Inl e
      | Inr (vs, fs) \<Rightarrow>
          (case Mesh vs fs of
             Inl e \<Rightarrow> Inl e
           | Inr m \<Rightarrow> Inr (M\<lparr>objects := objects M @ [m], data := data M @ [length (objects M)]\<rparr>)))"

text \<open>
  \<^verbatim>\<open>Model.get_bounding_box\<close>. The variable \<^verbatim>\<open>bbox\<close> is bound to the list stored in the
  first mesh, \<^verbatim>\<open>self.data[0].bounding_box\<close>, and no copy is made: \<^verbatim>\<open>bbox[i]\<close> is the
  inner list \<open>i\<close> of the mesh at address \<open>a0 = data[0]\<close>, and an assignment to
  \<^verbatim>\<open>bbox[i][k]\<close> is a write to that mesh object. \<open>inner\<close> reads an inner list of the
  store and \<open>set_inner\<close> assigns to one of its elements.
\<close>

definition inner :: "'a mesh list \<Rightarrow> addr \<Rightarrow> nat \<Rightarrow> 'a list" where
  "inner s a i = bounding_box (s ! a) ! i"

definition set_inner :: "'a mesh list \<Rightarrow> addr \<Rightarrow> nat \<Rightarrow> nat \<Rightarrow> 'a \<Rightarrow> 'a mesh list" where
  "set_inner s a i k v =
     s[a := (s ! a)\<lparr>bounding_box := (bounding_box (s ! a))[i := (inner s a i)[k := v]]\<rparr>]"

text \<open>
  The body of the inner loop for axis \<open>i\<close> and the mesh at address \<open>a\<close>:
  \<^verbatim>\<open>x_i = mesh.bounding_box[i]\<close>, then the two assignments. The result is the exception
  raised, if any, and the store at that moment.
\<close>

definition axis_step ::
  "addr \<Rightarrow> addr \<Rightarrow> nat \<Rightarrow> 'a::linorder mesh list \<Rightarrow> error option \<times> 'a mesh list" where
  "axis_step a0 a i s =
     (case py_index (bounding_box (s ! a)) (int i) of
        Inl e \<Rightarrow> (Some e, s)
      | Inr _ \<Rightarrow>
     (case py_index (inner s a0 i) 0 of
        Inl e \<Rightarrow> (Some e, s)
      | Inr lo0 \<Rightarrow>
     (case py_min (inner s a i) of
        Inl e \<Rightarrow> (Some e, s)
      | Inr lo \<Rightarrow>
     (let s1 = set_inner s a0 i 0 (min lo0 lo) in
     (case py_index (inner s1 a0 i) 1 of
        Inl e \<Rightarrow> (Some e, s1)
      | Inr hi0 \<Rightarrow>
     (case py_max (inner s1 a i) of
        Inl e \<Rightarrow> (Some e, s1)
      | Inr hi \<Rightarrow> (None, set_inner s1 a0 i 1 (max hi0 hi))))))))"

text \<open>\<^verbatim>\<open>for i in range(len(bbox))\<close> and \<^verbatim>\<open>for mesh in self.data[1:]\<close>.\<close>

fun axes_loop ::
  "addr \<Rightarrow> addr \<Rightarrow> nat list \<Rightarrow> 'a::linorder mesh list \<Rightarrow> error option \<times> 'a mesh list" where
  "axes_loop a0 a [] s = (None, s)"
| "axes_loop a0 a (i # is) s =
     (case axis_step a0 a i s of
        (Some e, s') \<Rightarrow> (Some e, s')
      | (None, s') \<Rightarrow> axes_loop a0 a is s')"

fun meshes_loop ::
  "addr \<Rightarrow> addr list \<Rightarrow> 'a::linorder mesh list \<Rightarrow> error option \<times> 'a mesh list" where
  "meshes_loop a0 [] s = (None, s)"
| "meshes_loop a0 (a # as) s =
     (case axes_loop a0 a [0..<length (bounding_box (s ! a0))] s of
        (Some e, s') \<Rightarrow> (Some e, s')
      | (None, s') \<Rightarrow> meshes_loop a0 as s')"

text \<open>The call returns the list \<^verbatim>\<open>bbox\<close> or raises; the second component is the model after it.\<close>

definition Model_get_bounding_box ::
  "'a::linorder model \<Rightarrow> (error + 'a list list) \<times> 'a model" where
  "Model_get_bounding_box M =
     (case data M of
        [] \<Rightarrow> (Inl IndexError, M)
      | a0 # rest \<Rightarrow>
          (case meshes_loop a0 rest (objects M) of
             (Some e, s') \<Rightarrow> (Inl e, M\<lparr>objects := s'\<rparr>)
           | (None, s') \<Rightarrow> (Inr (bounding_box (s' ! a0)), M\<lparr>objects := s'\<rparr>)))"

section \<open>Controller\<close>

text \<open>
  The three handler objects that \<^verbatim>\<open>Controller.__init__\<close> creates, one of each class.
\<close>

datatype handler_id = DefaultFileHandler | ScadFileHandler | PythonFileHandler

text \<open>
  The collaborators outside the program: \<open>read_mesh\<close> is \<^verbatim>\<open>vispy.io.read_mesh\<close>,
  \<open>view_plot\<close> is \<^verbatim>\<open>View.plot\<close> on the current model (\<open>Some e\<close> when it raises), and
  \<open>subprocess_run\<close> is \<^verbatim>\<open>subprocess.run\<close> without \<^verbatim>\<open>check\<close>: it raises when the program
  cannot be started and otherwise returns the exit status of the process.
\<close>

record 'a world =
  read_mesh :: "pypath \<Rightarrow> error + 'a list list \<times> nat list list"
  view_plot :: "'a model \<Rightarrow> error option"
  subprocess_run :: "pypath list \<Rightarrow> error + int"

text \<open>
  The state of \<^verbatim>\<open>class Controller\<close> that the reload path uses. \<open>file_handlers\<close> holds
  the entries of the \<^verbatim>\<open>defaultdict\<close>; its default factory always returns the
  \<open>DefaultFileHandler\<close> object. \<open>reload_lock\<close> is true while the lock is held.
  \<open>after_calls\<close> lists the delays of the pending \<^verbatim>\<open>root_frame.after\<close> timers for
  \<^verbatim>\<open>file_reloader\<close>. Two fields only record what happened: \<open>loads\<close> the arguments of
  the calls of \<^verbatim>\<open>load_file_in_viewer\<close>, \<open>commands\<close> the argument lists given to
  \<^verbatim>\<open>subprocess.run\<close>.
\<close>

record 'a controller =
  file_handlers :: "string \<rightharpoonup> handler_id"
  reload_lock :: bool
  reload_file :: "pypath option"
  model :: "'a model"
  after_calls :: "nat list"
  loads :: "pypath list"
  commands :: "pypath list list"

definition UI_RELOAD_TIME :: nat where
  "UI_RELOAD_TIME = 1000"

text \<open>
  How a call that changes the state ends: it returns, it raises, or it waits for the
  reload lock, which in a run where nobody releases the lock is for ever. The state is
  the one at that moment.
\<close>

datatype 's outcome = Returns 's | Raises error 's | Blocks 's

text \<open>The part of \<^verbatim>\<open>Controller.__init__\<close> that sets these fields; \<open>M\<close> is \<^verbatim>\<open>view.model\<close>.\<close>

definition Controller_init :: "'a model \<Rightarrow> 'a controller" where
  "Controller_init M =
     \<lparr>file_handlers = [''.py'' \<mapsto> PythonFileHandler, ''.scad'' \<mapsto> ScadFileHandler],
      reload_lock = False, reload_file = None, model = M, after_calls = [],
      loads = [], commands = []\<rparr>"

text \<open>
  \<^verbatim>\<open>Controller.get_file_handler\<close>: the \<^verbatim>\<open>defaultdict\<close> is indexed with the suffix of the
  path. Indexing a \<^verbatim>\<open>defaultdict\<close> with a key that it does not hold calls the factory,
  stores the result under the key and returns it.
\<close>

definition get_file_handler :: "pypath \<Rightarrow> 'a controller \<Rightarrow> handler_id \<times> 'a controller" where
  "get_file_handler path c =
     (let key = path_suffix (to_path path)
      in case file_handlers c key of
           Some h \<Rightarrow> (h, c)
         | None \<Rightarrow>
             (DefaultFileHandler,
              c\<lparr>file_handlers := (file_handlers c)(key \<mapsto> DefaultFileHandler)\<rparr>))"

text \<open>\<^verbatim>\<open>Controller.load_file_in_viewer\<close>.\<close>

definition load_file_in_viewer ::
  "'a::linorder world \<Rightarrow> pypath \<Rightarrow> 'a controller \<Rightarrow> 'a controller outcome" where
  "load_file_in_viewer w file_handle c =
     (let c1 = c\<lparr>model := Model_clear (model c), loads := loads c @ [file_handle]\<rparr>
      in case Model_load_file (read_mesh w) file_handle (model c1) of
           Inl e \<Rightarrow> Raises e c1
         | Inr M \<Rightarrow>
             (case view_plot w M of
                Some e \<Rightarrow> Raises e (c1\<lparr>model := M\<rparr>)
              | None \<Rightarrow> Returns (c1\<lparr>model := M\<rparr>)))"

text \<open>
  \<^verbatim>\<open>Controller.file_reloader\<close>. \<^verbatim>\<open>acquire(blocking=False)\<close> succeeds exactly when the lock
  is free. Nothing in the function catches an exception of \<^verbatim>\<open>load_file_in_viewer\<close>.
\<close>

definition file_reloader ::
  "'a::linorder world \<Rightarrow> 'a controller \<Rightarrow> 'a controller outcome" where
  "file_reloader w c =
     (if \<not> reload_lock c then
        (let c1 = c\<lparr>reload_lock := True\<rparr>
         in case (case reload_file c1 of
                    None \<Rightarrow> Returns c1
                  | Some p \<Rightarrow> if truthy p then load_file_in_viewer w p c1 else Returns c1) of
              Returns c2 \<Rightarrow>
                Returns (c2\<lparr>reload_file := None, reload_lock := False,
                             after_calls := after_calls c2 @ [UI_RELOAD_TIME]\<rparr>)
            | Raises e c2 \<Rightarrow> Raises e c2
            | Blocks c2 \<Rightarrow> Blocks c2)
      else Returns (c\<lparr>after_calls := after_calls c @ [UI_RELOAD_TIME]\<rparr>))"

section \<open>File handlers\<close>

text \<open>
  \<^verbatim>\<open>DefaultFileHandler.reload\<close>, called from the thread of the observer or from
  \<^verbatim>\<open>Controller.open\<close>: \<^verbatim>\<open>acquire(blocking=True)\<close> waits while the lock is held.
\<close>

definition Default_reload :: "pypath \<Rightarrow> 'a controller \<Rightarrow> 'a controller outcome" where
  "Default_reload file_path c =
     (if reload_lock c then Blocks c
      else Returns (c\<lparr>reload_file := Some file_path\<rparr>))"

text \<open>
  \<^verbatim>\<open>ScadFileHandler.reload\<close>. The value of \<^verbatim>\<open>subprocess.run\<close> is dropped; only
  \<^verbatim>\<open>FileNotFoundError\<close> of the first call is caught.
\<close>

definition scad_command :: "string \<Rightarrow> pure_path \<Rightarrow> pypath \<Rightarrow> pypath list" where
  "scad_command exe new_file file_path = [Str exe, Str ''-o'', PathObj new_file, file_path]"

definition Scad_reload ::
  "'a world \<Rightarrow> pypath \<Rightarrow> 'a controller \<Rightarrow> 'a controller outcome" where
  "Scad_reload w file_path c =
     (case with_stem (to_path file_path) ''solidpython_temp'' of
        Inl e \<Rightarrow> Raises e c
      | Inr stem_path \<Rightarrow>
     (case with_suffix stem_path ''.stl'' of
        Inl e \<Rightarrow> Raises e c
      | Inr new_file \<Rightarrow>
     (let cmd1 = scad_command ''openscad'' new_file file_path;
          c1 = c\<lparr>commands := commands c @ [cmd1]\<rparr>
      in case subprocess_run w cmd1 of
           Inr _ \<Rightarrow> Default_reload (PathObj new_file) c1
         | Inl e \<Rightarrow>
             if e = FileNotFoundError then
               (let cmd2 = scad_command ''openscad-nightly'' new_file file_path;
                    c2 = c1\<lparr>commands := commands c1 @ [cmd2]\<rparr>
                in case subprocess_run w cmd2 of
                     Inr _ \<Rightarrow> Default_reload (PathObj new_file) c2
                   | Inl e2 \<Rightarrow> Raises e2 c2)
             else Raises e c1)))"

section \<open>Watch sessions\<close>

text \<open>
  The observers of the \<^verbatim>\<open>watchdog\<close> library, through the calls that \<^verbatim>\<open>follow\<close> and
  \<^verbatim>\<open>stop\<close> make. The library is not part of the program; its functions are written
  after its interface: \<^verbatim>\<open>schedule\<close> returns an \<^verbatim>\<open>ObservedWatch\<close> (a directory and the
  recursive flag) and \<^verbatim>\<open>unschedule\<close> takes such a watch and looks it up in the
  dictionary of the observer, so any argument that is not a scheduled watch raises
  \<^verbatim>\<open>KeyError\<close>. \<^verbatim>\<open>stop\<close> also removes every watch. \<^verbatim>\<open>start\<close> first starts the emitters
  of the scheduled watches and raises \<^verbatim>\<open>FileNotFoundError\<close> when a watched directory
  does not exist; \<^verbatim>\<open>start\<close> of a started thread and \<^verbatim>\<open>join\<close> of a thread that was never
  started raise \<^verbatim>\<open>RuntimeError\<close>. Which directories exist is the parameter
  \<open>dir_exists\<close>.
\<close>

datatype watch = ObservedWatch (watch_path: pure_path) (watch_recursive: bool)

datatype pyvalue = NoneValue | PathValue pypath | WatchValue watch

record observer_obj =
  watches :: "watch list"
  started :: bool
  stopped :: bool
  joined :: bool

definition new_observer :: observer_obj where
  "new_observer = \<lparr>watches = [], started = False, stopped = False, joined = False\<rparr>"

definition observer_schedule :: "observer_obj \<Rightarrow> pure_path \<Rightarrow> bool \<Rightarrow> watch \<times> observer_obj" where
  "observer_schedule ob path recursive =
     (ObservedWatch path recursive,
      ob\<lparr>watches := set_add (ObservedWatch path recursive) (watches ob)\<rparr>)"

definition observer_unschedule :: "observer_obj \<Rightarrow> pyvalue \<Rightarrow> error + observer_obj" where
  "observer_unschedule ob arg =
     (case arg of
        WatchValue wt \<Rightarrow>
          if wt \<in> set (watches ob) then Inr (ob\<lparr>watches := removeAll wt (watches ob)\<rparr>)
          else Inl KeyError
      | _ \<Rightarrow> Inl KeyError)"

definition observer_start :: "(pure_path \<Rightarrow> bool) \<Rightarrow> observer_obj \<Rightarrow> error + observer_obj" where
  "observer_start dir_exists ob =
     (if \<exists>wt\<in>set (watches ob). \<not> dir_exists (watch_path wt) then Inl FileNotFoundError
      else if started ob then Inl RuntimeError
      else Inr (ob\<lparr>started := True\<rparr>))"

definition observer_stop :: "observer_obj \<Rightarrow> observer_obj" where
  "observer_stop ob = ob\<lparr>stopped := True, watches := []\<rparr>"

definition observer_join :: "observer_obj \<Rightarrow> error + observer_obj" where
  "observer_join ob = (if started ob then Inr (ob\<lparr>joined := True\<rparr>) else Inl RuntimeError)"

text \<open>An observer watches a directory while its thread runs and the watch is scheduled.\<close>

definition observing :: "observer_obj \<Rightarrow> pure_path \<Rightarrow> bool" where
  "observing ob dir = (started ob \<and> \<not> stopped ob \<and> ObservedWatch dir False \<in> set (watches ob))"

text \<open>
  The fields of \<^verbatim>\<open>BaseFileHandler\<close>. \<open>observer\<close> is a reference into the store of all
  observer objects created so far; times are in milliseconds.
\<close>

record handler =
  observer :: "addr option"
  observed_file :: "pypath option"
  observed_path :: "pure_path option"
  observer_watch :: "watch option"
  last_reload :: "nat option"

definition BaseFileHandler_init :: handler where
  "BaseFileHandler_init =
     \<lparr>observer = None, observed_file = None, observed_path = None, observer_watch = None,
      last_reload = None\<rparr>"

text \<open>The value of an attribute that holds \<^verbatim>\<open>None\<close> or a path.\<close>

fun path_value :: "pypath option \<Rightarrow> pyvalue" where
  "path_value None = NoneValue"
| "path_value (Some p) = PathValue p"

text \<open>
  The first statement of \<^verbatim>\<open>BaseFileHandler.follow\<close>: when there is an observer (an
  observer object is always true), \<^verbatim>\<open>unschedule\<close> is called with
  \<^verbatim>\<open>self.observed_file\<close>, then \<^verbatim>\<open>stop\<close> and \<^verbatim>\<open>join\<close>.
\<close>

definition teardown :: "handler \<Rightarrow> observer_obj list \<Rightarrow> error option \<times> observer_obj list" where
  "teardown h obs =
     (case observer h of
        None \<Rightarrow> (None, obs)
      | Some a \<Rightarrow>
          (case observer_unschedule (obs ! a) (path_value (observed_file h)) of
             Inl e \<Rightarrow> (Some e, obs)
           | Inr ob1 \<Rightarrow>
               (case observer_join (observer_stop ob1) of
                  Inl e \<Rightarrow> (Some e, obs[a := observer_stop ob1])
                | Inr ob2 \<Rightarrow> (None, obs[a := ob2]))))"

text \<open>
  \<^verbatim>\<open>BaseFileHandler.follow\<close>; \<open>now\<close> is \<^verbatim>\<open>datetime.now()\<close>. The state is the handler and
  the store of the observers.
\<close>

definition follow ::
  "(pure_path \<Rightarrow> bool) \<Rightarrow> pypath \<Rightarrow> nat \<Rightarrow> handler \<times> observer_obj list
     \<Rightarrow> (handler \<times> observer_obj list) outcome" where
  "follow dir_exists file now st =
     (case st of (h, obs) \<Rightarrow>
     (case teardown h obs of
        (Some e, obs1) \<Rightarrow> Raises e (h, obs1)
      | (None, obs1) \<Rightarrow>
     (let a = length obs1;
          obs2 = obs1 @ [new_observer];
          h1 = h\<lparr>observer := Some a, observed_file := Some file\<rparr>
      in case parents0 (to_path file) of
           Inl e \<Rightarrow> Raises e (h1, obs2)
         | Inr dir \<Rightarrow>
     (let h2 = h1\<lparr>observed_path := Some dir, observer_watch := None\<rparr>
      in case observer_schedule (obs2 ! a) dir False of
           (wt, ob1) \<Rightarrow>
     (let h3 = h2\<lparr>observer_watch := Some wt\<rparr>
      in case observer_start dir_exists ob1 of
           Inl e \<Rightarrow> Raises e (h3, obs2[a := ob1])
         | Inr ob2 \<Rightarrow> Returns (h3\<lparr>last_reload := Some now\<rparr>, obs2[a := ob2]))))))"

section \<open>Example inputs\<close>

text \<open>
  Concrete inputs for the closed theorems below: a model without meshes, a controller
  fresh from \<^verbatim>\<open>__init__\<close>, the same controller with a reload request pending, and
  collaborators that succeed or fail in the ways that matter.
\<close>

definition example_model :: "int model" where
  "example_model = \<lparr>objects = [], data = []\<rparr>"

definition example_controller :: "int controller" where
  "example_controller = Controller_init example_model"

definition example_pending :: "int controller" where
  "example_pending = example_controller\<lparr>reload_file := Some (Str ''/w/a.stl'')\<rparr>"

text \<open>Every mesh file holds one triangle, the view draws it, the compiler exits with 0.\<close>

definition example_world :: "int world" where
  "example_world =
     \<lparr>read_mesh = (\<lambda>p. Inr ([[0, 0, 0], [1, 0, 0], [0, 1, 0]], [[0, 1, 2]])),
      view_plot = (\<lambda>M. None),
      subprocess_run = (\<lambda>cmd. Inr 0)\<rparr>"

text \<open>No mesh file can be read.\<close>

definition example_world_unreadable :: "int world" where
  "example_world_unreadable = example_world\<lparr>read_mesh := (\<lambda>p. Inl ReadError)\<rparr>"

text \<open>The compiler starts and exits with status 1.\<close>

definition example_world_exit_1 :: "int world" where
  "example_world_exit_1 = example_world\<lparr>subprocess_run := (\<lambda>cmd. Inr 1)\<rparr>"

text \<open>Neither executable is installed.\<close>

definition example_world_no_compiler :: "int world" where
  "example_world_no_compiler = example_world\<lparr>subprocess_run := (\<lambda>cmd. Inl FileNotFoundError)\<rparr>"

text \<open>
  A model with two meshes, as two calls of \<^verbatim>\<open>load_file\<close> leave it: a triangle with
  corners up to 1 and a triangle with corners up to 2.
\<close>

definition example_two_meshes :: "int model" where
  "example_two_meshes =
     \<lparr>objects =
        [\<lparr>vertices = [[0, 0, 0], [1, 0, 0], [0, 1, 0]], faces = [[0, 1, 2]],
          bounding_box = [[0, 1], [0, 1], [0, 0]]\<rparr>,
         \<lparr>vertices = [[0, 0, 0], [2, 0, 0], [0, 2, 0]], faces = [[0, 1, 2]],
          bounding_box = [[0, 2], [0, 2], [0, 0]]\<rparr>],
      data = [0, 1]\<rparr>"

text \<open>The two directories of the example files exist, and no other.\<close>

definition example_dir_exists :: "pure_path \<Rightarrow> bool" where
  "example_dir_exists d = (d = PurePath ''/'' [''w'', ''a''] \<or> d = PurePath ''/'' [''w'', ''b''])"


section \<open>Properties of the mesh\<close>

subsection \<open>Auxiliary facts\<close>

lemma set_set_add: "set (set_add x xs) = insert x (set xs)"
  by (auto simp: set_add_def)

lemma distinct_set_add: "distinct xs \<Longrightarrow> distinct (set_add x xs)"
  by (auto simp: set_add_def)

lemma set_fold_add: "set (fold (\<lambda>i acc. set_add (g i) acc) is ls) = g ` set is \<union> set ls"
  by (induction "is" arbitrary: ls) (auto simp: set_set_add)

lemma distinct_fold_add: "distinct ls \<Longrightarrow> distinct (fold (\<lambda>i acc. set_add (g i) acc) is ls)"
  by (induction "is" arbitrary: ls) (auto simp: distinct_set_add)

lemma set_face_loop: "set (face_loop face ls) = edge_at face ` {..<length face} \<union> set ls"
  by (simp add: face_loop_def set_fold_add atLeast0LessThan)

lemma distinct_face_loop: "distinct ls \<Longrightarrow> distinct (face_loop face ls)"
  by (simp add: face_loop_def distinct_fold_add)

lemma set_fold_face_loop: "set (fold face_loop fs ls) = (\<Union>f\<in>set fs. edge_at f ` {..<length f}) \<union> set ls"
  by (induction fs arbitrary: ls) (auto simp: set_face_loop)

lemma distinct_fold_face_loop: "distinct ls \<Longrightarrow> distinct (fold face_loop fs ls)"
  by (induction fs arbitrary: ls) (auto simp: distinct_face_loop)

lemma edge_at_canonical: "edge_at f i = (min (f ! i) (f ! ((i + 1) mod length f)), max (f ! i) (f ! ((i + 1) mod length f)))"
  by (auto simp: edge_at_def Let_def min_def max_def)

lemma set_line_segments_of: "set (line_segments_of fs) = (\<Union>f\<in>set fs. edge_at f ` {..<length f})"
  by (simp add: line_segments_of_def set_fold_face_loop)

lemma distinct_line_segments_of: "distinct (line_segments_of fs)"
  by (simp add: line_segments_of_def distinct_fold_face_loop)

lemma triangle_edges: "edge_at [a,b,c] ` {..<length [a,b,c]} = {(min a b, max a b), (min b c, max b c), (min c a, max c a)}"
proof -
  have "{..<length [a,b,c]} = {0,1,2}" by auto
  then show ?thesis by (simp add: edge_at_canonical)
qed

lemma triangle_pairs:
  assumes "distinct [a,b,c::nat]"
  shows "{(min a b, max a b), (min b c, max b c), (min c a, max c a)} = {(x, y). x \<in> {a,b,c} \<and> y \<in> {a,b,c} \<and> x < y}"
  using assms by (auto simp: min_def max_def)

lemma card_triangle_pairs:
  assumes "distinct [a,b,c::nat]"
  shows "card {(min a b, max a b), (min b c, max b c), (min c a, max c a)} = 3"
proof -
  have "distinct [(min a b, max a b), (min b c, max b c), (min c a, max c a)]"
    using assms by (auto simp: min_def max_def)
  then have "card (set [(min a b, max a b), (min b c, max b c), (min c a, max c a)]) = 3"
    by (simp only: distinct_card) simp
  then show ?thesis by simp
qed

lemma card_two_pairs:
  assumes "card (S::nat set) = 2"
  shows "card {(x, y). x \<in> S \<and> y \<in> S \<and> x < y} = 1"
proof -
  obtain u v where S: "S = {u, v}" "u \<noteq> v" using assms by (auto simp: card_2_iff)
  have "{(x, y). x \<in> S \<and> y \<in> S \<and> x < y} = {(min u v, max u v)}"
    using S by (auto simp: min_def max_def)
  then show ?thesis by simp
qed

lemma two_triangles:
  assumes "distinct [a,b,c]" "distinct [d,e,g]" "card (set [a,b,c] \<inter> set [d,e,g]) = 2"
  shows "length (line_segments_of [[a,b,c],[d,e,g]]) = 5"
proof -
  define A where "A = {(min a b, max a b), (min b c, max b c), (min c a, max c a)}"
  define B where "B = {(min d e, max d e), (min e g, max e g), (min g d, max g d)}"
  let ?P = "\<lambda>S::nat set. {(x, y). x \<in> S \<and> y \<in> S \<and> x < y}"
  have "length (line_segments_of [[a,b,c],[d,e,g]]) = card (set (line_segments_of [[a,b,c],[d,e,g]]))"
    by (simp only: distinct_card distinct_line_segments_of)
  also have "set (line_segments_of [[a,b,c],[d,e,g]]) = A \<union> B"
    unfolding set_line_segments_of A_def B_def
    using triangle_edges[of a b c] triangle_edges[of d e g] by simp
  finally have L: "length (line_segments_of [[a,b,c],[d,e,g]]) = card (A \<union> B)" .
  have A: "A = ?P {a,b,c}" unfolding A_def by (rule triangle_pairs[OF assms(1)])
  have B: "B = ?P {d,e,g}" unfolding B_def by (rule triangle_pairs[OF assms(2)])
  have "A \<inter> B = ?P ({a,b,c} \<inter> {d,e,g})" unfolding A B by blast
  moreover have "card ({a,b,c} \<inter> {d,e,g}) = 2" using assms(3) by simp
  then have "card (?P ({a,b,c} \<inter> {d,e,g})) = 1" by (rule card_two_pairs)
  ultimately have I: "card (A \<inter> B) = 1" by (simp only:)
  have fin: "finite A" "finite B" unfolding A_def B_def by simp_all
  have U: "card A + card B = card (A \<union> B) + card (A \<inter> B)"
    by (rule card_Un_Int[OF fin])
  have cA: "card A = 3" unfolding A_def by (rule card_triangle_pairs[OF assms(1)])
  have cB: "card B = 3" unfolding B_def by (rule card_triangle_pairs[OF assms(2)])
  show ?thesis using L I U cA cB by linarith
qed



lemma collect_map: "(\<And>x. x \<in> set xs \<Longrightarrow> f x = Inr (g x)) \<Longrightarrow> collect f xs = Inr (map g xs)"
  by (induction xs) auto


lemma py_index_nat: "i < length xs \<Longrightarrow> py_index xs (int i) = Inr (xs ! i)"
  by (simp add: py_index_def)


lemma py_min_Min: "xs \<noteq> [] \<Longrightarrow> py_min xs = Inr (Min (set xs))"
  by (cases xs) (simp_all add: Min.set_eq_fold[symmetric])

lemma py_max_Max: "xs \<noteq> [] \<Longrightarrow> py_max xs = Inr (Max (set xs))"
  by (cases xs) (simp_all add: Max.set_eq_fold[symmetric])


lemma get_vertices_valid:
  assumes "\<forall>f\<in>set fs. \<forall>i\<in>set f. i < length vs"
  shows "get_vertices vs fs = Inr (map (map (\<lambda>i. vs ! i)) fs)"
  unfolding get_vertices_def using assms
  by (intro collect_map) (simp add: py_index_nat)


lemma axis_bounds_eq:
  assumes "v \<noteq> []" "\<forall>p\<in>set v. k < length p"
  shows "axis_bounds v k = Inr [Min ((\<lambda>p. p ! k) ` set v), Max ((\<lambda>p. p ! k) ` set v)]"
proof -
  have "collect (\<lambda>p. py_index p (int k)) v = Inr (map (\<lambda>p. p ! k) v)"
    using assms(2) by (intro collect_map) (simp add: py_index_nat)
  moreover have "map (\<lambda>p. p ! k) v \<noteq> []" using assms(1) by simp
  ultimately show ?thesis
    by (simp add: axis_bounds_def py_min_Min py_max_Max)
qed

lemma axis_bounds_empty: "axis_bounds [] k = Inl ValueError"
  by (simp add: axis_bounds_def)

lemma get_bounding_box_eq:
  fixes vs :: "'a::linorder list list"
  assumes valid: "\<forall>f\<in>set fs. \<forall>i\<in>set f. i < length vs"
      and dims: "\<forall>p\<in>set vs. length p = 3"
  shows "get_bounding_box vs fs =
      (if vs = [] then Inl IndexError
       else if \<Union>(set ` set fs) = {} then Inl ValueError
       else Inr (map (\<lambda>k. [Min ((\<lambda>i. vs ! i ! k) ` \<Union>(set ` set fs)),
                            Max ((\<lambda>i. vs ! i ! k) ` \<Union>(set ` set fs))]) [0..<3]))"
proof (cases "vs = []")
  case True
  have pi: "py_index vs 0 = Inl IndexError" using True by (simp add: py_index_def)
  have "get_bounding_box vs fs = Inl IndexError"
    unfolding get_bounding_box_def get_vertices_valid[OF valid] pi by simp
  then show ?thesis using True by simp
next
  case False
  then have v0: "py_index vs 0 = Inr (vs ! 0)" "length (vs ! 0) = 3"
    using dims by (simp_all add: py_index_def)
  let ?v = "concat (map (map (\<lambda>i. vs ! i)) fs)"
  have setv: "set ?v = (\<lambda>i. vs ! i) ` \<Union>(set ` set fs)" by auto
  have G: "get_bounding_box vs fs = collect (axis_bounds ?v) [0..<3]"
    by (simp add: get_bounding_box_def get_vertices_valid[OF valid] v0)
  show ?thesis
  proof (cases "\<Union>(set ` set fs) = {}")
    case True
    then have "?v = []" using setv by (metis image_is_empty set_empty)
    then have "get_bounding_box vs fs = collect (axis_bounds []) [0..<3]"
      using G by (simp only:)
    also have "\<dots> = Inl ValueError"
      by (simp add: axis_bounds_empty upt_rec[of 0 3])
    finally show ?thesis using False True by simp
  next
    case ne: False
    then have nev: "?v \<noteq> []" using setv by (metis image_is_empty set_empty)
    have len: "\<forall>p\<in>set ?v. length p = 3"
      unfolding setv using valid dims by auto
    have img: "\<And>k. (\<lambda>p. p ! k) ` set ?v = (\<lambda>i. vs ! i ! k) ` \<Union>(set ` set fs)"
      unfolding setv by (simp add: image_image)
    have "collect (axis_bounds ?v) [0..<3] =
          Inr (map (\<lambda>k. [Min ((\<lambda>p. p ! k) ` set ?v), Max ((\<lambda>p. p ! k) ` set ?v)]) [0..<3])"
      using len by (intro collect_map axis_bounds_eq[OF nev]) auto
    then show ?thesis using False ne G unfolding img by simp
  qed
qed











lemma Mesh_eq:
  fixes vs :: "'a::linorder list list"
  assumes "\<forall>f\<in>set fs. \<forall>i\<in>set f. i < length vs" and "\<forall>p\<in>set vs. length p = 3"
  shows "Mesh vs fs =
      (if vs = [] then Inl IndexError
       else if \<Union>(set ` set fs) = {} then Inl ValueError
       else Inr \<lparr>vertices = vs, faces = fs,
                 bounding_box =
                   map (\<lambda>k. [Min ((\<lambda>i. vs ! i ! k) ` \<Union>(set ` set fs)),
                              Max ((\<lambda>i. vs ! i ! k) ` \<Union>(set ` set fs))]) [0..<3]\<rparr>)"
  unfolding Mesh_def get_bounding_box_eq[OF assms] by simp

lemma upt_0_3: "[0..<3] = [0, 1, 2]"
  by (simp add: eval_nat_numeral)

subsection \<open>The edge set (claim C5)\<close>

text \<open>
  C5. For every mesh, the set \<^verbatim>\<open>line_segments\<close> built by \<^verbatim>\<open>get_line_segments\<close> from the
  faces holds exactly the pairs (lower index, higher index) of the consecutive vertices of
  every face, the pair of the last and the first vertex included; every pair is held
  once, however many faces have it. In particular two triangles that share exactly one
  edge (two common vertices) give exactly 5 pairs.
\<close>

theorem line_segments_unique_edges:
  "set (line_segments_of (faces m)) =
     {(min (f ! i) (f ! ((i + 1) mod length f)), max (f ! i) (f ! ((i + 1) mod length f)))
        | f i. f \<in> set (faces m) \<and> i < length f}
   \<and> distinct (line_segments_of (faces m))
   \<and> (\<forall>a b c d e g.
         faces m = [[a, b, c], [d, e, g]] \<and> distinct [a, b, c] \<and> distinct [d, e, g]
           \<and> card (set [a, b, c] \<inter> set [d, e, g]) = 2
         \<longrightarrow> length (line_segments_of (faces m)) = 5)"
proof (intro conjI allI impI)
  show "set (line_segments_of (faces m)) =
     {(min (f ! i) (f ! ((i + 1) mod length f)), max (f ! i) (f ! ((i + 1) mod length f)))
        | f i. f \<in> set (faces m) \<and> i < length f}"
    unfolding set_line_segments_of edge_at_canonical by auto
next
  show "distinct (line_segments_of (faces m))"
    by (rule distinct_line_segments_of)
next
  fix a b c d e g
  assume h: "faces m = [[a, b, c], [d, e, g]] \<and> distinct [a, b, c] \<and> distinct [d, e, g]
           \<and> card (set [a, b, c] \<inter> set [d, e, g]) = 2"
  then have "length (line_segments_of [[a, b, c], [d, e, g]]) = 5"
    by (intro two_triangles) blast+
  then show "length (line_segments_of (faces m)) = 5"
    using h by simp
qed

theorem line_segments_unique_edges_witness:
  "length (line_segments_of (faces
      \<lparr>vertices = [[0, 0, 0], [1, 0, 0], [1, 1, 0], [0, 1, 0 :: int]],
       faces = [[0, 1, 2], [0, 2, 3]],
       bounding_box = [[0, 1], [0, 1], [0, 0]]\<rparr>)) = 5"
proof -
  let ?m = "\<lparr>vertices = [[0, 0, 0], [1, 0, 0], [1, 1, 0], [0, 1, 0 :: int]],
       faces = [[0, 1, 2], [0, 2, 3]],
       bounding_box = [[0, 1], [0, 1], [0, 0]]\<rparr>"
  have "{0, Suc 0, 2} \<inter> {0, 2, 3 :: nat} = {0, 2}" by auto
  then have h: "faces ?m = [[0, 1, 2], [0, 2, 3]] \<and> distinct [0, 1, 2 :: nat] \<and> distinct [0, 2, 3 :: nat]
           \<and> card (set [0, 1, 2] \<inter> set [0, 2, 3 :: nat]) = 2"
    by simp
  from line_segments_unique_edges [of ?m]
  have "\<forall>a b c d e g.
         faces ?m = [[a, b, c], [d, e, g]] \<and> distinct [a, b, c] \<and> distinct [d, e, g]
           \<and> card (set [a, b, c] \<inter> set [d, e, g]) = 2
         \<longrightarrow> length (line_segments_of (faces ?m)) = 5"
    by (elim conjE)
  then show ?thesis using h by blast
qed

subsection \<open>The bounding box of a mesh (claim C6)\<close>

text \<open>
  C6. When the faces hold only valid vertex indices (and every vertex has 3 coordinates),
  the constructor stores, for each of the 3 axes, the least and the greatest coordinate
  among the vertices that some face references. It raises exactly when there is no vertex
  at all or no face references one, and vertices that no face references have no
  influence: another vertex list that agrees on the referenced indices gives the same
  bounding box.
\<close>

theorem bounding_box_of_referenced_vertices:
  fixes vs :: "'a::linorder list list"
  assumes valid: "\<forall>f\<in>set fs. \<forall>i\<in>set f. i < length vs"
      and dims: "\<forall>p\<in>set vs. length p = 3"
  shows "Mesh vs fs =
           (if vs = [] then Inl IndexError
            else if \<Union>(set ` set fs) = {} then Inl ValueError
            else Inr \<lparr>vertices = vs, faces = fs,
                      bounding_box =
                        map (\<lambda>k. [Min ((\<lambda>i. vs ! i ! k) ` \<Union>(set ` set fs)),
                                   Max ((\<lambda>i. vs ! i ! k) ` \<Union>(set ` set fs))]) [0..<3]\<rparr>)
         \<and> (\<forall>vs' m m'.
               (\<forall>f\<in>set fs. \<forall>i\<in>set f. i < length vs' \<and> vs' ! i = vs ! i)
                 \<and> (\<forall>p\<in>set vs'. length p = 3)
                 \<and> Mesh vs fs = Inr m \<and> Mesh vs' fs = Inr m'
               \<longrightarrow> bounding_box m' = bounding_box m)"
proof (intro conjI allI impI)
  show "Mesh vs fs =
           (if vs = [] then Inl IndexError
            else if \<Union>(set ` set fs) = {} then Inl ValueError
            else Inr \<lparr>vertices = vs, faces = fs,
                      bounding_box =
                        map (\<lambda>k. [Min ((\<lambda>i. vs ! i ! k) ` \<Union>(set ` set fs)),
                                   Max ((\<lambda>i. vs ! i ! k) ` \<Union>(set ` set fs))]) [0..<3]\<rparr>)"
    by (simp add: Mesh_eq[OF valid dims])
next
  fix vs' :: "'a list list" and m m'
  assume h: "(\<forall>f\<in>set fs. \<forall>i\<in>set f. i < length vs' \<and> vs' ! i = vs ! i)
                 \<and> (\<forall>p\<in>set vs'. length p = 3)
                 \<and> Mesh vs fs = Inr m \<and> Mesh vs' fs = Inr m'"
  then have valid': "\<forall>f\<in>set fs. \<forall>i\<in>set f. i < length vs'"
    and dims': "\<forall>p\<in>set vs'. length p = 3" by blast+
  have same: "\<And>k. (\<lambda>i. vs' ! i ! k) ` \<Union>(set ` set fs) = (\<lambda>i. vs ! i ! k) ` \<Union>(set ` set fs)"
    using h by (intro image_cong) auto
  from h have "Mesh vs fs = Inr m" "Mesh vs' fs = Inr m'" by blast+
  then show "bounding_box m' = bounding_box m"
    unfolding Mesh_eq[OF valid dims] Mesh_eq[OF valid' dims'] same
    by (auto split: if_splits)
qed

theorem bounding_box_of_referenced_vertices_witness:
  "Mesh [[0, 0, 0], [1, 0, 0], [0, 1, 0], [5, 5, 5 :: int]] [[0, 1, 2]] =
     Inr \<lparr>vertices = [[0, 0, 0], [1, 0, 0], [0, 1, 0], [5, 5, 5]], faces = [[0, 1, 2]],
          bounding_box = [[0, 1], [0, 1], [0, 0]]\<rparr>"
proof -
  let ?vs = "[[0, 0, 0], [1, 0, 0], [0, 1, 0], [5, 5, 5 :: int]]" and ?fs = "[[0, 1, 2 :: nat]]"
  have valid: "\<forall>f\<in>set ?fs. \<forall>i\<in>set f. i < length ?vs" by simp
  have dims: "\<forall>p\<in>set ?vs. length p = 3" by simp
  show ?thesis
    using bounding_box_of_referenced_vertices [OF valid dims]
    by (simp add: upt_0_3)
qed

subsection \<open>The positions returned for the edges (claim C10)\<close>




section \<open>Properties of the reload mailbox and the poll loop\<close>

subsection \<open>Auxiliary facts\<close>

lemma load_file_in_viewer_frame:
  "(\<exists>c'. load_file_in_viewer w p c = Returns c' \<and> reload_lock c' = reload_lock c
        \<and> reload_file c' = reload_file c \<and> after_calls c' = after_calls c
        \<and> loads c' = loads c @ [p])
   \<or> (\<exists>e c'. load_file_in_viewer w p c = Raises e c' \<and> reload_lock c' = reload_lock c
        \<and> reload_file c' = reload_file c \<and> after_calls c' = after_calls c
        \<and> loads c' = loads c @ [p])"
  by (simp add: load_file_in_viewer_def Let_def split: sum.splits option.splits)

lemma load_file_in_viewer_ok:
  assumes "read_mesh w p = Inr (vs, fs)" "Mesh vs fs = Inr m" "\<forall>M. view_plot w M = None"
  shows "\<exists>c'. load_file_in_viewer w p c = Returns c'"
  using assms by (simp add: load_file_in_viewer_def Let_def Model_load_file_def)

lemma file_reloader_pending:
  assumes "\<not> reload_lock c" "reload_file c = Some p" "truthy p"
  shows "file_reloader w c =
          (case load_file_in_viewer w p (c\<lparr>reload_lock := True\<rparr>) of
             Returns c2 \<Rightarrow> Returns (c2\<lparr>reload_file := None, reload_lock := False,
                             after_calls := after_calls c2 @ [UI_RELOAD_TIME]\<rparr>)
           | Raises e c2 \<Rightarrow> Raises e c2
           | Blocks c2 \<Rightarrow> Blocks c2)"
  using assms by (simp add: file_reloader_def Let_def)

lemma file_reloader_locked:
  assumes "reload_lock c"
  shows "file_reloader w c = Returns (c\<lparr>after_calls := after_calls c @ [UI_RELOAD_TIME]\<rparr>)"
  using assms by (simp add: file_reloader_def)

lemma drain_loads:
  assumes "\<not> reload_lock c" "reload_file c = Some p" "truthy p"
  shows "case file_reloader w c of
           Returns c3 \<Rightarrow> loads c3 = loads c @ [p] \<and> reload_file c3 = None \<and> \<not> reload_lock c3
              \<and> after_calls c3 = after_calls c @ [UI_RELOAD_TIME]
         | Raises e c3 \<Rightarrow> loads c3 = loads c @ [p] \<and> reload_file c3 = Some p \<and> reload_lock c3
              \<and> after_calls c3 = after_calls c
         | Blocks c3 \<Rightarrow> False"
  using load_file_in_viewer_frame[of w p "c\<lparr>reload_lock := True\<rparr>"] assms
  unfolding file_reloader_pending[OF assms]
  by (elim disjE exE conjE) simp_all

lemma example_mesh:
  "Mesh [[0, 0, 0], [1, 0, 0], [0, 1, 0 :: int]] [[0, 1, 2]] =
     Inr \<lparr>vertices = [[0, 0, 0], [1, 0, 0], [0, 1, 0]], faces = [[0, 1, 2]],
          bounding_box = [[0, 1], [0, 1], [0, 0]]\<rparr>"
  by (simp add: Mesh_def get_bounding_box_def get_vertices_def py_index_def axis_bounds_def upt_0_3)

lemma example_unreadable_load:
  "load_file_in_viewer example_world_unreadable (Str ''/w/a.stl'') (example_pending\<lparr>reload_lock := True\<rparr>)
     = Raises ReadError (example_pending\<lparr>reload_lock := True, loads := [Str ''/w/a.stl'']\<rparr>)"
  by (simp add: load_file_in_viewer_def Let_def Model_load_file_def example_world_unreadable_def
      example_world_def example_pending_def example_controller_def Controller_init_def
      Model_clear_def example_model_def)

subsection \<open>Coalescing and clearing (claim C1)\<close>

text \<open>
  C1. The mailbox \<open>reload_file\<close> holds at most one path (it is an optional value). From
  any state in which the lock is free, \<^verbatim>\<open>reload(A)\<close> and then \<^verbatim>\<open>reload(B)\<close> of the
  watcher return and leave \<open>B\<close> in the mailbox. The next call of \<^verbatim>\<open>file_reloader\<close>
  acquires the lock and calls \<^verbatim>\<open>load_file_in_viewer\<close> once, with \<open>B\<close>: \<open>A\<close> is never
  loaded. When the call returns, the mailbox is empty and the lock is free, and it does
  return when the file can be read, the mesh built and the view drawn. \<open>B\<close> is a path,
  that is, not the empty string.
\<close>

theorem mailbox_coalescing:
  fixes w :: "'a::linorder world"
  assumes free: "\<not> reload_lock c" and path: "truthy B"
  shows "\<exists>c1 c2.
           Default_reload A c = Returns c1 \<and> reload_file c1 = Some A
         \<and> Default_reload B c1 = Returns c2 \<and> reload_file c2 = Some B
         \<and> (case file_reloader w c2 of
              Returns c3 \<Rightarrow> loads c3 = loads c @ [B] \<and> reload_file c3 = None \<and> \<not> reload_lock c3
            | Raises e c3 \<Rightarrow> loads c3 = loads c @ [B]
            | Blocks c3 \<Rightarrow> False)
         \<and> ((\<exists>vs fs m. read_mesh w B = Inr (vs, fs) \<and> Mesh vs fs = Inr m)
              \<and> (\<forall>M. view_plot w M = None)
             \<longrightarrow> (\<exists>c3. file_reloader w c2 = Returns c3))"
proof -
  let ?c1 = "c\<lparr>reload_file := Some A\<rparr>"
  let ?c2 = "?c1\<lparr>reload_file := Some B\<rparr>"
  have r1: "Default_reload A c = Returns ?c1" using free by (simp add: Default_reload_def)
  have r2: "Default_reload B ?c1 = Returns ?c2" using free by (simp add: Default_reload_def)
  have f2: "\<not> reload_lock ?c2" "reload_file ?c2 = Some B" using free by simp_all
  have d: "case file_reloader w ?c2 of
              Returns c3 \<Rightarrow> loads c3 = loads c @ [B] \<and> reload_file c3 = None \<and> \<not> reload_lock c3
            | Raises e c3 \<Rightarrow> loads c3 = loads c @ [B]
            | Blocks c3 \<Rightarrow> False"
    using drain_loads[OF f2 path, of w] by (auto split: outcome.splits)
  have ok: "(\<exists>vs fs m. read_mesh w B = Inr (vs, fs) \<and> Mesh vs fs = Inr m)
              \<and> (\<forall>M. view_plot w M = None)
             \<longrightarrow> (\<exists>c3. file_reloader w ?c2 = Returns c3)"
  proof
    assume h: "(\<exists>vs fs m. read_mesh w B = Inr (vs, fs) \<and> Mesh vs fs = Inr m)
              \<and> (\<forall>M. view_plot w M = None)"
    then obtain vs fs m where "read_mesh w B = Inr (vs, fs)" "Mesh vs fs = Inr m"
      "\<forall>M. view_plot w M = None" by blast
    from load_file_in_viewer_ok[OF this, of "?c2\<lparr>reload_lock := True\<rparr>"]
    obtain c' where "load_file_in_viewer w B (?c2\<lparr>reload_lock := True\<rparr>) = Returns c'" by blast
    then show "\<exists>c3. file_reloader w ?c2 = Returns c3"
      unfolding file_reloader_pending[OF f2 path] by simp
  qed
  from r1 r2 d ok show ?thesis
    by (intro exI[of _ ?c1] exI[of _ ?c2]) simp
qed

theorem mailbox_coalescing_witness:
  "\<exists>c1 c2 c3.
      Default_reload (Str ''/w/a.stl'') example_controller = Returns c1
    \<and> Default_reload (Str ''/w/b.stl'') c1 = Returns c2
    \<and> reload_file c2 = Some (Str ''/w/b.stl'')
    \<and> file_reloader example_world c2 = Returns c3
    \<and> loads c3 = [Str ''/w/b.stl''] \<and> reload_file c3 = None \<and> \<not> reload_lock c3"
proof -
  have free: "\<not> reload_lock example_controller"
    by (simp add: example_controller_def Controller_init_def)
  have path: "truthy (Str ''/w/b.stl'')" by simp
  have ok: "(\<exists>vs fs m. read_mesh example_world (Str ''/w/b.stl'') = Inr (vs, fs) \<and> Mesh vs fs = Inr m)
      \<and> (\<forall>M. view_plot example_world M = None)"
    using example_mesh by (simp add: example_world_def)
  have l0: "loads example_controller = []"
    by (simp add: example_controller_def Controller_init_def)
  from mailbox_coalescing [OF free path, of "Str ''/w/a.stl''" example_world]
  obtain c1 c2 where
    r: "Default_reload (Str ''/w/a.stl'') example_controller = Returns c1"
       "Default_reload (Str ''/w/b.stl'') c1 = Returns c2"
       "reload_file c2 = Some (Str ''/w/b.stl'')"
    and d: "case file_reloader example_world c2 of
              Returns c3 \<Rightarrow> loads c3 = loads example_controller @ [Str ''/w/b.stl'']
                 \<and> reload_file c3 = None \<and> \<not> reload_lock c3
            | Raises e c3 \<Rightarrow> loads c3 = loads example_controller @ [Str ''/w/b.stl'']
            | Blocks c3 \<Rightarrow> False"
    and e: "(\<exists>vs fs m. read_mesh example_world (Str ''/w/b.stl'') = Inr (vs, fs) \<and> Mesh vs fs = Inr m)
      \<and> (\<forall>M. view_plot example_world M = None) \<longrightarrow> (\<exists>c3. file_reloader example_world c2 = Returns c3)"
    by blast
  from e ok obtain c3 where c3: "file_reloader example_world c2 = Returns c3" by blast
  with d l0 have "loads c3 = [Str ''/w/b.stl''] \<and> reload_file c3 = None \<and> \<not> reload_lock c3"
    by simp
  with r c3 show ?thesis by blast
qed

subsection \<open>An error while a reload is processed (claim C2)\<close>

text \<open>
  C2, as amended. Let a path be pending and the lock free. When \<^verbatim>\<open>load_file_in_viewer\<close>
  raises for the drained path, \<^verbatim>\<open>file_reloader\<close> raises the same exception at once: the
  lock stays held, the path stays in the mailbox and no timer is added; a later tick
  cannot acquire the lock and loads nothing, and a \<^verbatim>\<open>reload\<close> of the watcher waits for
  the lock. When the load returns, the lock is released, the mailbox is cleared, the
  loop is rescheduled after \<open>UI_RELOAD_TIME\<close>, and the next tick drains a later request.
\<close>

theorem file_reloader_load_outcome:
  fixes w :: "'a::linorder world"
  assumes free: "\<not> reload_lock c" and pending: "reload_file c = Some p" and path: "truthy p"
  shows "(\<forall>e c'. load_file_in_viewer w p (c\<lparr>reload_lock := True\<rparr>) = Raises e c' \<longrightarrow>
            file_reloader w c = Raises e c'
          \<and> reload_lock c' \<and> reload_file c' = Some p \<and> after_calls c' = after_calls c
          \<and> file_reloader w c' = Returns (c'\<lparr>after_calls := after_calls c' @ [UI_RELOAD_TIME]\<rparr>)
          \<and> (\<forall>q. Default_reload q c' = Blocks c'))
       \<and> (\<forall>c'. load_file_in_viewer w p (c\<lparr>reload_lock := True\<rparr>) = Returns c' \<longrightarrow>
            (\<exists>c''. file_reloader w c = Returns c''
               \<and> \<not> reload_lock c'' \<and> reload_file c'' = None
               \<and> after_calls c'' = after_calls c @ [UI_RELOAD_TIME]
               \<and> (\<forall>q. truthy q \<longrightarrow>
                     (\<exists>c3. Default_reload q c'' = Returns c3
                        \<and> (case file_reloader w c3 of
                              Returns c4 \<Rightarrow> loads c4 = loads c'' @ [q]
                            | Raises e c4 \<Rightarrow> loads c4 = loads c'' @ [q]
                            | Blocks c4 \<Rightarrow> False)))))"
proof (rule conjI; intro allI impI)
  fix e c'
  assume r: "load_file_in_viewer w p (c\<lparr>reload_lock := True\<rparr>) = Raises e c'"
  have fr: "file_reloader w c = Raises e c'"
    unfolding file_reloader_pending[OF free pending path] r by simp
  from drain_loads[OF free pending path, of w] fr
  have st: "reload_lock c'" "reload_file c' = Some p" "after_calls c' = after_calls c"
    by simp_all
  show "file_reloader w c = Raises e c'
          \<and> reload_lock c' \<and> reload_file c' = Some p \<and> after_calls c' = after_calls c
          \<and> file_reloader w c' = Returns (c'\<lparr>after_calls := after_calls c' @ [UI_RELOAD_TIME]\<rparr>)
          \<and> (\<forall>q. Default_reload q c' = Blocks c')"
    using fr st file_reloader_locked[OF st(1), of w] by (simp add: Default_reload_def)
next
  fix c'
  assume r: "load_file_in_viewer w p (c\<lparr>reload_lock := True\<rparr>) = Returns c'"
  let ?c'' = "c'\<lparr>reload_file := None, reload_lock := False,
                   after_calls := after_calls c' @ [UI_RELOAD_TIME]\<rparr>"
  have fr: "file_reloader w c = Returns ?c''"
    unfolding file_reloader_pending[OF free pending path] r by simp
  from drain_loads[OF free pending path, of w] fr
  have ac: "after_calls ?c'' = after_calls c @ [UI_RELOAD_TIME]" by simp
  have next_drain: "\<forall>q. truthy q \<longrightarrow>
                     (\<exists>c3. Default_reload q ?c'' = Returns c3
                        \<and> (case file_reloader w c3 of
                              Returns c4 \<Rightarrow> loads c4 = loads ?c'' @ [q]
                            | Raises e c4 \<Rightarrow> loads c4 = loads ?c'' @ [q]
                            | Blocks c4 \<Rightarrow> False))"
  proof (intro allI impI)
    fix q assume q: "truthy q"
    let ?c3 = "?c''\<lparr>reload_file := Some q\<rparr>"
    have "Default_reload q ?c'' = Returns ?c3" by (simp add: Default_reload_def)
    moreover have f3: "\<not> reload_lock ?c3" "reload_file ?c3 = Some q" by simp_all
    from drain_loads[OF f3 q, of w]
    have "case file_reloader w ?c3 of
                              Returns c4 \<Rightarrow> loads c4 = loads ?c'' @ [q]
                            | Raises e c4 \<Rightarrow> loads c4 = loads ?c'' @ [q]
                            | Blocks c4 \<Rightarrow> False"
      by (auto split: outcome.splits)
    ultimately show "\<exists>c3. Default_reload q ?c'' = Returns c3
                        \<and> (case file_reloader w c3 of
                              Returns c4 \<Rightarrow> loads c4 = loads ?c'' @ [q]
                            | Raises e c4 \<Rightarrow> loads c4 = loads ?c'' @ [q]
                            | Blocks c4 \<Rightarrow> False)"
      by blast
  qed
  show "\<exists>c''. file_reloader w c = Returns c''
               \<and> \<not> reload_lock c'' \<and> reload_file c'' = None
               \<and> after_calls c'' = after_calls c @ [UI_RELOAD_TIME]
               \<and> (\<forall>q. truthy q \<longrightarrow>
                     (\<exists>c3. Default_reload q c'' = Returns c3
                        \<and> (case file_reloader w c3 of
                              Returns c4 \<Rightarrow> loads c4 = loads c'' @ [q]
                            | Raises e c4 \<Rightarrow> loads c4 = loads c'' @ [q]
                            | Blocks c4 \<Rightarrow> False)))"
    using fr ac next_drain by (intro exI[of _ ?c'']) simp
qed

theorem file_reloader_load_outcome_witness:
  "file_reloader example_world_unreadable example_pending =
      Raises ReadError (example_pending\<lparr>reload_lock := True, loads := [Str ''/w/a.stl'']\<rparr>)
   \<and> Default_reload (Str ''/w/b.stl'')
        (example_pending\<lparr>reload_lock := True, loads := [Str ''/w/a.stl'']\<rparr>) =
      Blocks (example_pending\<lparr>reload_lock := True, loads := [Str ''/w/a.stl'']\<rparr>)"
proof -
  have free: "\<not> reload_lock example_pending"
    and pending: "reload_file example_pending = Some (Str ''/w/a.stl'')"
    by (simp_all add: example_pending_def example_controller_def Controller_init_def)
  have path: "truthy (Str ''/w/a.stl'')" by simp
  from file_reloader_load_outcome [OF free pending path, of example_world_unreadable]
    example_unreadable_load
  show ?thesis by blast
qed

text \<open>
  The claim as first stated fails when the mesh file cannot be read: the lock is still
  held after \<^verbatim>\<open>file_reloader\<close>, no timer is pending, and a further tick changes nothing
  but the timers.
\<close>

theorem file_reloader_keeps_lock_counterexample:
  "file_reloader example_world_unreadable example_pending =
      Raises ReadError (example_pending\<lparr>reload_lock := True, loads := [Str ''/w/a.stl'']\<rparr>)
   \<and> reload_lock (example_pending\<lparr>reload_lock := True, loads := [Str ''/w/a.stl'']\<rparr>)
   \<and> after_calls (example_pending\<lparr>reload_lock := True, loads := [Str ''/w/a.stl'']\<rparr>) = []
   \<and> file_reloader example_world_unreadable
        (example_pending\<lparr>reload_lock := True, loads := [Str ''/w/a.stl'']\<rparr>) =
      Returns (example_pending\<lparr>reload_lock := True, loads := [Str ''/w/a.stl''],
                               after_calls := [UI_RELOAD_TIME]\<rparr>)"
  by (simp add: file_reloader_def Let_def load_file_in_viewer_def Model_load_file_def
      example_world_unreadable_def example_world_def example_pending_def
      example_controller_def Controller_init_def Model_clear_def example_model_def)

section \<open>Properties of the handler dispatch\<close>

subsection \<open>Auxiliary facts\<close>

lemma suffix_model_py: "path_suffix (parse_path ''model.py'') = ''.py''"
  by (simp add: path_suffix_def path_name_def parse_path_def splitroot_def Let_def)

lemma suffix_model_PY: "path_suffix (parse_path ''model.PY'') = ''.PY''"
  by (simp add: path_suffix_def path_name_def parse_path_def splitroot_def Let_def)

lemma suffix_mesh_stl: "path_suffix (parse_path ''mesh.stl'') = ''.stl''"
  by (simp add: path_suffix_def path_name_def parse_path_def splitroot_def Let_def)

subsection \<open>Which handler is chosen (claim C4)\<close>

text \<open>
  C4, as amended. The dispatch is an exact match on the suffix of the path as it is
  written, with a default: \<^verbatim>\<open>get_file_handler\<close> returns the handler stored under the
  suffix, and the \<open>DefaultFileHandler\<close> when there is none; no letter is lowered. After
  \<^verbatim>\<open>__init__\<close> this is the \<open>PythonFileHandler\<close> for \<^verbatim>\<open>.py\<close>, the \<open>ScadFileHandler\<close> for
  \<^verbatim>\<open>.scad\<close> and the \<open>DefaultFileHandler\<close> for every other suffix, \<^verbatim>\<open>.PY\<close> included.
\<close>

theorem get_file_handler_exact_suffix:
  "fst (get_file_handler path c) =
     (case file_handlers c (path_suffix (to_path path)) of
        Some h \<Rightarrow> h
      | None \<Rightarrow> DefaultFileHandler)
   \<and> fst (get_file_handler path (Controller_init M)) =
       (if path_suffix (to_path path) = ''.py'' then PythonFileHandler
        else if path_suffix (to_path path) = ''.scad'' then ScadFileHandler
        else DefaultFileHandler)"
  by (simp add: get_file_handler_def Let_def Controller_init_def split: option.splits)

theorem get_file_handler_exact_suffix_witness:
  "fst (get_file_handler (Str ''model.py'') example_controller) = PythonFileHandler"
  using get_file_handler_exact_suffix [of "Str ''model.py''" example_controller example_model,
      THEN conjunct2]
  by (simp add: suffix_model_py example_controller_def)

text \<open>
  The claim as first stated fails: \<^verbatim>\<open>model.PY\<close> and \<^verbatim>\<open>model.py\<close>, whose suffixes differ
  only in the case of the letters, get different handlers.
\<close>

theorem get_file_handler_case_counterexample:
  "fst (get_file_handler (Str ''model.PY'') example_controller) = DefaultFileHandler
   \<and> fst (get_file_handler (Str ''model.py'') example_controller) = PythonFileHandler"
  by (simp add: get_file_handler_def Let_def suffix_model_py suffix_model_PY
      example_controller_def Controller_init_def)

subsection \<open>What a lookup does to the mapping (claim C9)\<close>

text \<open>
  C9, as amended. \<^verbatim>\<open>get_file_handler\<close> leaves the controller, and so the mapping,
  unchanged when the suffix of the path has an entry. When it has none, the lookup adds
  one entry, from that suffix to the \<open>DefaultFileHandler\<close>, and changes nothing else.
  In both cases every path gets the same handler after the call as before it.
\<close>

theorem get_file_handler_mapping:
  "(file_handlers c (path_suffix (to_path path)) \<noteq> None \<longrightarrow>
       snd (get_file_handler path c) = c)
   \<and> (file_handlers c (path_suffix (to_path path)) = None \<longrightarrow>
       snd (get_file_handler path c) =
         c\<lparr>file_handlers := (file_handlers c)(path_suffix (to_path path) \<mapsto> DefaultFileHandler)\<rparr>)
   \<and> (\<forall>path'. fst (get_file_handler path' (snd (get_file_handler path c))) =
                fst (get_file_handler path' c))"
  by (auto simp: get_file_handler_def Let_def split: option.splits)

theorem get_file_handler_mapping_witness:
  "snd (get_file_handler (Str ''model.py'') example_controller) = example_controller
   \<and> snd (get_file_handler (Str ''mesh.stl'') example_controller) =
       example_controller\<lparr>file_handlers :=
          (file_handlers example_controller)(''.stl'' \<mapsto> DefaultFileHandler)\<rparr>"
proof -
  have py: "file_handlers example_controller (path_suffix (to_path (Str ''model.py''))) \<noteq> None"
    by (simp add: suffix_model_py example_controller_def Controller_init_def)
  have stl: "file_handlers example_controller (path_suffix (to_path (Str ''mesh.stl''))) = None"
    by (simp add: suffix_mesh_stl example_controller_def Controller_init_def)
  from get_file_handler_mapping [of example_controller "Str ''model.py''"] py
  have a: "snd (get_file_handler (Str ''model.py'') example_controller) = example_controller"
    by blast
  from get_file_handler_mapping [of example_controller "Str ''mesh.stl''"] stl
  have "snd (get_file_handler (Str ''mesh.stl'') example_controller) =
         example_controller\<lparr>file_handlers := (file_handlers example_controller)
            (path_suffix (to_path (Str ''mesh.stl'')) \<mapsto> DefaultFileHandler)\<rparr>"
    by blast
  with a show ?thesis by (simp add: suffix_mesh_stl)
qed

text \<open>
  The claim as first stated fails: after the lookup of \<^verbatim>\<open>mesh.stl\<close> the mapping has an
  entry for \<^verbatim>\<open>.stl\<close> that it did not have before.
\<close>

theorem get_file_handler_inserts_counterexample:
  "file_handlers example_controller ''.stl'' = None
   \<and> file_handlers (snd (get_file_handler (Str ''mesh.stl'') example_controller)) ''.stl'' =
       Some DefaultFileHandler"
  by (simp add: get_file_handler_def Let_def suffix_mesh_stl
      example_controller_def Controller_init_def)

section \<open>Properties of the conversion of \<^verbatim>\<open>.scad\<close> files\<close>

subsection \<open>Auxiliary facts\<close>

lemma shape_scad_path: "parse_path ''/w/shape.scad'' = PurePath ''/'' [''w'', ''shape.scad'']"
  by (simp add: parse_path_def splitroot_def)

lemma shape_scad_stem:
  "with_stem (PurePath ''/'' [''w'', ''shape.scad'']) ''solidpython_temp'' =
     Inr (PurePath ''/'' [''w'', ''solidpython_temp.scad''])"
  by (simp add: with_stem_def with_name_def path_suffix_def path_name_def Let_def)

lemma shape_scad_stl:
  "with_suffix (PurePath ''/'' [''w'', ''solidpython_temp.scad'']) ''.stl'' =
     Inr (PurePath ''/'' [''w'', ''solidpython_temp.stl''])"
  by (simp add: with_suffix_def path_suffix_def path_name_def Let_def)

subsection \<open>Calling the compiler (claim C8)\<close>

text \<open>
  C8, as amended. Let the output path \<open>new_file\<close> exist (the input path has a name) and
  the lock be free. \<^verbatim>\<open>ScadFileHandler.reload\<close> first runs
  \<^verbatim>\<open>openscad -o new_file file_path\<close>. It runs \<^verbatim>\<open>openscad-nightly\<close> with the same
  arguments only when the first call raised \<^verbatim>\<open>FileNotFoundError\<close>. The attempt fails,
  without delegating, when both programs are missing or when the first call raises
  another exception. Whenever a compiler process ran, whatever its exit status, the
  handler delegates to \<^verbatim>\<open>DefaultFileHandler.reload\<close> with \<open>new_file\<close>.
\<close>

theorem Scad_reload_outcome:
  assumes stem: "with_stem (to_path file_path) ''solidpython_temp'' = Inr stem_path"
      and out: "with_suffix stem_path ''.stl'' = Inr new_file"
      and free: "\<not> reload_lock c"
  shows "(\<forall>status. subprocess_run w (scad_command ''openscad'' new_file file_path) = Inr status \<longrightarrow>
            Scad_reload w file_path c =
              Returns (c\<lparr>commands := commands c @ [scad_command ''openscad'' new_file file_path],
                         reload_file := Some (PathObj new_file)\<rparr>))
       \<and> (\<forall>status.
            subprocess_run w (scad_command ''openscad'' new_file file_path) = Inl FileNotFoundError
          \<and> subprocess_run w (scad_command ''openscad-nightly'' new_file file_path) = Inr status \<longrightarrow>
            Scad_reload w file_path c =
              Returns (c\<lparr>commands := commands c @ [scad_command ''openscad'' new_file file_path,
                                                     scad_command ''openscad-nightly'' new_file file_path],
                         reload_file := Some (PathObj new_file)\<rparr>))
       \<and> (\<forall>e.
            subprocess_run w (scad_command ''openscad'' new_file file_path) = Inl FileNotFoundError
          \<and> subprocess_run w (scad_command ''openscad-nightly'' new_file file_path) = Inl e \<longrightarrow>
            Scad_reload w file_path c =
              Raises e (c\<lparr>commands := commands c @ [scad_command ''openscad'' new_file file_path,
                                                      scad_command ''openscad-nightly'' new_file file_path]\<rparr>))
       \<and> (\<forall>e.
            subprocess_run w (scad_command ''openscad'' new_file file_path) = Inl e
          \<and> e \<noteq> FileNotFoundError \<longrightarrow>
            Scad_reload w file_path c =
              Raises e (c\<lparr>commands := commands c @ [scad_command ''openscad'' new_file file_path]\<rparr>))"
  using free by (simp add: Scad_reload_def stem out Let_def Default_reload_def)

theorem Scad_reload_outcome_witness:
  "Scad_reload example_world_no_compiler (Str ''/w/shape.scad'') example_controller =
     Raises FileNotFoundError
       (example_controller\<lparr>commands :=
          [[Str ''openscad'', Str ''-o'', PathObj (PurePath ''/'' [''w'', ''solidpython_temp.stl'']),
            Str ''/w/shape.scad''],
           [Str ''openscad-nightly'', Str ''-o'', PathObj (PurePath ''/'' [''w'', ''solidpython_temp.stl'']),
            Str ''/w/shape.scad'']]\<rparr>)"
proof -
  have stem: "with_stem (to_path (Str ''/w/shape.scad'')) ''solidpython_temp'' =
      Inr (PurePath ''/'' [''w'', ''solidpython_temp.scad''])"
    by (simp add: shape_scad_path shape_scad_stem)
  have free: "\<not> reload_lock example_controller"
    and nocmd: "commands example_controller = []"
    by (simp_all add: example_controller_def Controller_init_def)
  have run: "\<And>cmd. subprocess_run example_world_no_compiler cmd = Inl FileNotFoundError"
    by (simp add: example_world_no_compiler_def example_world_def)
  from Scad_reload_outcome [OF stem shape_scad_stl free, of example_world_no_compiler] run nocmd
  show ?thesis by (simp add: scad_command_def)
qed

text \<open>
  The claim as first stated fails: a compiler that exits with status 1 does not make the
  attempt fail; the output path is posted for loading all the same.
\<close>

theorem Scad_reload_exit_status_counterexample:
  "subprocess_run example_world_exit_1
      [Str ''openscad'', Str ''-o'', PathObj (PurePath ''/'' [''w'', ''solidpython_temp.stl'']),
       Str ''/w/shape.scad''] = Inr 1
   \<and> Scad_reload example_world_exit_1 (Str ''/w/shape.scad'') example_controller =
       Returns (example_controller\<lparr>commands :=
          [[Str ''openscad'', Str ''-o'', PathObj (PurePath ''/'' [''w'', ''solidpython_temp.stl'']),
            Str ''/w/shape.scad'']],
          reload_file := Some (PathObj (PurePath ''/'' [''w'', ''solidpython_temp.stl'']))\<rparr>)"
  by (simp add: Scad_reload_def shape_scad_path shape_scad_stem shape_scad_stl Let_def
      Default_reload_def scad_command_def example_world_exit_1_def example_world_def
      example_controller_def Controller_init_def)

section \<open>Properties of the watch sessions\<close>

subsection \<open>Auxiliary facts\<close>

text \<open>
  Once a handler has an observer, every further \<^verbatim>\<open>follow\<close> stops at its first library
  call: \<^verbatim>\<open>unschedule\<close> gets \<^verbatim>\<open>self.observed_file\<close>, which is never a watch.
\<close>

lemma follow_again_raises:
  assumes "observer h = Some a"
  shows "follow dir_exists file now (h, obs) = Raises KeyError (h, obs)"
proof -
  have "observer_unschedule (obs ! a) (path_value (observed_file h)) = Inl KeyError"
    by (cases "observed_file h") (simp_all add: observer_unschedule_def)
  then have "teardown h obs = (Some KeyError, obs)"
    using assms by (simp add: teardown_def)
  then show ?thesis by (simp add: follow_def)
qed

lemma parents_x: "parents0 (parse_path ''/w/a/x.stl'') = Inr (PurePath ''/'' [''w'', ''a''])"
  by (simp add: parents0_def parse_path_def splitroot_def)

subsection \<open>Following a second file (claim C3)\<close>

text \<open>
  C3 asks that a second \<^verbatim>\<open>follow\<close> on the same handler succeeds and leaves exactly one
  session, the one on the parent directory of the second path. The program does not do
  that. Both directories exist. On a fresh handler \<^verbatim>\<open>follow('/w/a/x.stl')\<close> returns
  with one observer that watches \<^verbatim>\<open>/w/a\<close>. The next call \<^verbatim>\<open>follow('/w/b/y.stl')\<close> raises \<^verbatim>\<open>KeyError\<close> in
  \<^verbatim>\<open>unschedule\<close> and changes nothing: the first observer still runs and still watches
  \<^verbatim>\<open>/w/a\<close>, and nothing watches \<^verbatim>\<open>/w/b\<close>.
\<close>

theorem follow_twice_keeps_first_session:
  "follow example_dir_exists (Str ''/w/a/x.stl'') 0 (BaseFileHandler_init, []) =
     Returns (\<lparr>observer = Some 0, observed_file = Some (Str ''/w/a/x.stl''),
               observed_path = Some (PurePath ''/'' [''w'', ''a'']),
               observer_watch = Some (ObservedWatch (PurePath ''/'' [''w'', ''a'']) False),
               last_reload = Some 0\<rparr>,
              [\<lparr>watches = [ObservedWatch (PurePath ''/'' [''w'', ''a'']) False],
                started = True, stopped = False, joined = False\<rparr>])
   \<and> follow example_dir_exists (Str ''/w/b/y.stl'') 5000
       (\<lparr>observer = Some 0, observed_file = Some (Str ''/w/a/x.stl''),
         observed_path = Some (PurePath ''/'' [''w'', ''a'']),
         observer_watch = Some (ObservedWatch (PurePath ''/'' [''w'', ''a'']) False),
         last_reload = Some 0\<rparr>,
        [\<lparr>watches = [ObservedWatch (PurePath ''/'' [''w'', ''a'']) False],
          started = True, stopped = False, joined = False\<rparr>]) =
     Raises KeyError
       (\<lparr>observer = Some 0, observed_file = Some (Str ''/w/a/x.stl''),
         observed_path = Some (PurePath ''/'' [''w'', ''a'']),
         observer_watch = Some (ObservedWatch (PurePath ''/'' [''w'', ''a'']) False),
         last_reload = Some 0\<rparr>,
        [\<lparr>watches = [ObservedWatch (PurePath ''/'' [''w'', ''a'']) False],
          started = True, stopped = False, joined = False\<rparr>])
   \<and> observing \<lparr>watches = [ObservedWatch (PurePath ''/'' [''w'', ''a'']) False],
          started = True, stopped = False, joined = False\<rparr> (PurePath ''/'' [''w'', ''a''])
   \<and> \<not> observing \<lparr>watches = [ObservedWatch (PurePath ''/'' [''w'', ''a'']) False],
          started = True, stopped = False, joined = False\<rparr> (PurePath ''/'' [''w'', ''b''])"
proof -
  have first: "follow example_dir_exists (Str ''/w/a/x.stl'') 0 (BaseFileHandler_init, []) =
     Returns (\<lparr>observer = Some 0, observed_file = Some (Str ''/w/a/x.stl''),
               observed_path = Some (PurePath ''/'' [''w'', ''a'']),
               observer_watch = Some (ObservedWatch (PurePath ''/'' [''w'', ''a'']) False),
               last_reload = Some 0\<rparr>,
              [\<lparr>watches = [ObservedWatch (PurePath ''/'' [''w'', ''a'']) False],
                started = True, stopped = False, joined = False\<rparr>])"
    by (simp add: follow_def teardown_def BaseFileHandler_init_def Let_def parents_x
        new_observer_def observer_schedule_def observer_start_def set_add_def
        example_dir_exists_def)
  show ?thesis
    by (simp add: first follow_again_raises observing_def)
qed

section \<open>Properties of the model\<close>

subsection \<open>Auxiliary facts\<close>

text \<open>The two meshes of the example are what the constructor builds.\<close>

lemma example_two_meshes_built:
  "Mesh [[0, 0, 0], [1, 0, 0], [0, 1, 0 :: int]] [[0, 1, 2]] = Inr (objects example_two_meshes ! 0)
   \<and> Mesh [[0, 0, 0], [2, 0, 0], [0, 2, 0 :: int]] [[0, 1, 2]] = Inr (objects example_two_meshes ! 1)"
  by (simp add: Mesh_def get_bounding_box_def get_vertices_def py_index_def axis_bounds_def
      example_two_meshes_def eval_nat_numeral)

subsection \<open>The bounding box of a model (claim C7)\<close>

text \<open>
  C7 asks that \<^verbatim>\<open>Model.get_bounding_box\<close> only reads the meshes. The program does not
  do that for a model with two meshes: the call returns the union of both boxes, and
  the bounding box stored in the first mesh, \<open>[[0, 1], [0, 1], [0, 0]]\<close> before the
  call, is \<open>[[0, 2], [0, 2], [0, 0]]\<close> after it, because the returned list is the list
  stored in that mesh.
\<close>

theorem Model_get_bounding_box_overwrites_first_mesh:
  "Model_get_bounding_box example_two_meshes =
     (Inr [[0, 2], [0, 2], [0, 0]],
      \<lparr>objects =
        [\<lparr>vertices = [[0, 0, 0], [1, 0, 0], [0, 1, 0]], faces = [[0, 1, 2]],
          bounding_box = [[0, 2], [0, 2], [0, 0]]\<rparr>,
         \<lparr>vertices = [[0, 0, 0], [2, 0, 0], [0, 2, 0]], faces = [[0, 1, 2]],
          bounding_box = [[0, 2], [0, 2], [0, 0]]\<rparr>],
       data = [0, 1]\<rparr>)
   \<and> bounding_box (objects example_two_meshes ! 0) = [[0, 1], [0, 1], [0, 0]]
   \<and> bounding_box (objects (snd (Model_get_bounding_box example_two_meshes)) ! 0) =
       [[0, 2], [0, 2], [0, 0]]"
proof -
  have ev: "Model_get_bounding_box example_two_meshes =
     (Inr [[0, 2], [0, 2], [0, 0]],
      \<lparr>objects =
        [\<lparr>vertices = [[0, 0, 0], [1, 0, 0], [0, 1, 0]], faces = [[0, 1, 2]],
          bounding_box = [[0, 2], [0, 2], [0, 0]]\<rparr>,
         \<lparr>vertices = [[0, 0, 0], [2, 0, 0], [0, 2, 0]], faces = [[0, 1, 2]],
          bounding_box = [[0, 2], [0, 2], [0, 0]]\<rparr>],
       data = [0, 1]\<rparr>)"
    by (simp add: Model_get_bounding_box_def example_two_meshes_def axis_step_def inner_def
        set_inner_def py_index_def Let_def eval_nat_numeral)
  show ?thesis
    unfolding ev by (simp add: example_two_meshes_def)
qed

end
